theory Spec2Isabelle
  imports Main "HOL-Library.Word"
begin

unbundle bit_operations_syntax

section \<open>Python string and integer primitives used by both assemblers\<close>

text \<open>
  Source text is modelled as a list of 8-bit characters and the primitives below follow
  Python's \<^verbatim>\<open>str\<close> methods on ASCII text: \<^verbatim>\<open>isspace\<close> is true of TAB, LF, VT, FF, CR,
  the four separators 0x1C..0x1F and the space; \<^verbatim>\<open>upper\<close> maps a..z to A..Z. Characters
  beyond ASCII are treated as ordinary non-space symbols without case.
\<close>

definition isspace :: "char \<Rightarrow> bool" where
  "isspace c = (let n = (of_char c :: nat) in (9 \<le> n \<and> n \<le> 13) \<or> (28 \<le> n \<and> n \<le> 32))"

text \<open>\<^verbatim>\<open>s.strip()\<close>\<close>
definition strip :: "string \<Rightarrow> string" where
  "strip s = rev (dropWhile isspace (rev (dropWhile isspace s)))"

text \<open>\<^verbatim>\<open>s.split()\<close>: the maximal runs of non-space characters; \<open>cur\<close> is the run being
  read, reversed.\<close>
fun split_acc :: "string \<Rightarrow> string \<Rightarrow> string list" where
  "split_acc cur [] = (if cur = [] then [] else [rev cur])"
| "split_acc cur (c # cs) =
     (if isspace c then (if cur = [] then split_acc [] cs else rev cur # split_acc [] cs)
      else split_acc (c # cur) cs)"

definition split :: "string \<Rightarrow> string list" where
  "split s = split_acc [] s"

text \<open>\<^verbatim>\<open>s.split(sep)[0]\<close>, which is also \<^verbatim>\<open>s[:s.index(sep)]\<close> when \<open>sep\<close> occurs in \<open>s\<close>
  and \<open>s\<close> itself when it does not.\<close>
definition before_first :: "char \<Rightarrow> string \<Rightarrow> string" where
  "before_first sep s = takeWhile (\<lambda>c. c \<noteq> sep) s"

text \<open>\<^verbatim>\<open>if ';' in line: line = line[:line.index(';')]\<close>\<close>
definition cut_comment :: "string \<Rightarrow> string" where
  "cut_comment s = (if CHR '';'' \<in> set s then before_first (CHR '';'') s else s)"

definition upper_char :: "char \<Rightarrow> char" where
  "upper_char c = (let n = (of_char c :: nat) in
     if 97 \<le> n \<and> n \<le> 122 then char_of (n - 32) else c)"

text \<open>\<^verbatim>\<open>s.upper()\<close>\<close>
definition upper :: "string \<Rightarrow> string" where
  "upper s = map upper_char s"

text \<open>\<^verbatim>\<open>s.replace(',', ' ')\<close>\<close>
definition replace_comma :: "string \<Rightarrow> string" where
  "replace_comma s = map (\<lambda>c. if c = CHR '','' then CHR '' '' else c) s"

text \<open>\<^verbatim>\<open>s.rstrip(',')\<close>\<close>
definition rstrip_comma :: "string \<Rightarrow> string" where
  "rstrip_comma s = rev (dropWhile (\<lambda>c. c = CHR '','') (rev s))"

definition is_digit_char :: "char \<Rightarrow> bool" where
  "is_digit_char c = (let n = (of_char c :: nat) in 48 \<le> n \<and> n \<le> 57)"

definition is_alpha_char :: "char \<Rightarrow> bool" where
  "is_alpha_char c = (let n = (of_char c :: nat) in
     (65 \<le> n \<and> n \<le> 90) \<or> (97 \<le> n \<and> n \<le> 122))"

text \<open>\<^verbatim>\<open>s.isdigit()\<close>\<close>
definition isdigit :: "string \<Rightarrow> bool" where
  "isdigit s = (s \<noteq> [] \<and> list_all is_digit_char s)"

text \<open>\<^verbatim>\<open>s.isidentifier()\<close>\<close>
definition isidentifier :: "string \<Rightarrow> bool" where
  "isidentifier s = (case s of
       [] \<Rightarrow> False
     | c # cs \<Rightarrow> (is_alpha_char c \<or> c = CHR ''_'') \<and>
                list_all (\<lambda>d. is_alpha_char d \<or> is_digit_char d \<or> d = CHR ''_'') cs)"

subsection \<open>The built-in \<^verbatim>\<open>int(s, base)\<close>\<close>

text \<open>
  \<^verbatim>\<open>int\<close> raises \<^verbatim>\<open>ValueError\<close> on a malformed literal: that is the result \<open>None\<close>.
  A literal is an optional sign, an optional radix prefix (for base 16, and for base 0,
  where the prefix selects the base) that may be followed by one underscore, and digits
  separated by single underscores. In base 0 a decimal literal with a leading zero must
  denote zero. The interpreter's optional cap on the number of decimal digits is not
  modelled.
\<close>

definition digit_val :: "char \<Rightarrow> int option" where
  "digit_val c = (let n = (of_char c :: nat) in
     if 48 \<le> n \<and> n \<le> 57 then Some (int n - 48)
     else if 97 \<le> n \<and> n \<le> 122 then Some (int n - 87)
     else if 65 \<le> n \<and> n \<le> 90 then Some (int n - 55)
     else None)"

text \<open>\<open>prev\<close> tells whether the previous character was a digit.\<close>
fun parse_digits :: "int \<Rightarrow> int \<Rightarrow> bool \<Rightarrow> string \<Rightarrow> int option" where
  "parse_digits b acc prev [] = (if prev then Some acc else None)"
| "parse_digits b acc prev (c # cs) =
     (if c = CHR ''_'' then (if prev then parse_digits b acc False cs else None)
      else (case digit_val c of
              None \<Rightarrow> None
            | Some d \<Rightarrow> if d < b then parse_digits b (acc * b + d) True cs else None))"

fun strip_sign :: "string \<Rightarrow> bool \<times> string" where
  "strip_sign [] = (False, [])"
| "strip_sign (c # cs) =
     (if c = CHR ''-'' then (True, cs) else if c = CHR ''+'' then (False, cs) else (False, c # cs))"

definition radix_prefix :: "string \<Rightarrow> int option" where
  "radix_prefix t =
     (if take 2 t = ''0x'' \<or> take 2 t = ''0X'' then Some 16
      else if take 2 t = ''0o'' \<or> take 2 t = ''0O'' then Some 8
      else if take 2 t = ''0b'' \<or> take 2 t = ''0B'' then Some 2
      else None)"

definition py_int :: "nat \<Rightarrow> string \<Rightarrow> int option" where
  "py_int base s =
     (let (neg, t) = strip_sign (strip s);
          pre = radix_prefix t;
          b = (if base = 0 then (case pre of Some r \<Rightarrow> r | None \<Rightarrow> 10) else int base);
          u = (if pre = Some b
               then (let r = drop 2 t in if take 1 r = ''_'' then drop 1 r else r)
               else t);
          zero_only = (base = 0 \<and> pre = None \<and> take 1 t = ''0'')
      in case parse_digits b 0 False u of
           None \<Rightarrow> None
         | Some v \<Rightarrow> if zero_only \<and> v \<noteq> 0 then None
                     else Some (if neg then - v else v))"

section \<open>The instruction set tables\<close>

text \<open>\<^verbatim>\<open>self.commands\<close> and \<^verbatim>\<open>self.registers\<close>, the same in both files.\<close>

definition commands :: "string \<rightharpoonup> int" where
  "commands = map_of
     [(''LOAD'', 0x01), (''STORE'', 0x02), (''ADD'', 0x03), (''SUB'', 0x04),
      (''MUL'', 0x05), (''DIV'', 0x06), (''MOD'', 0x07), (''JMP'', 0x08),
      (''JZ'', 0x09), (''JNZ'', 0x0a), (''CMP'', 0x0b), (''CALL'', 0x0c),
      (''RET'', 0x0d), (''PUSH'', 0x0e), (''POP'', 0x0f), (''HALT'', 0x10)]"

definition registers :: "string \<rightharpoonup> int" where
  "registers = map_of [(''A'', 0), (''B'', 1), (''C'', 2), (''D'', 3)]"

section \<open>assembler-stage2.py\<close>

text \<open>
  The messages appended to \<^verbatim>\<open>self.errors\<close>, each with the line number it starts
  with:
  unknown command; wrong register (PUSH, POP, LOAD, STORE; the register text is
  \<^verbatim>\<open>None\<close> when the operand is missing); no label given for a jump; unknown label;
  CMP needs two registers; wrong registers for CMP; an arithmetic command needs two
  operands; wrong first register of an arithmetic command; arithmetic operand outside
  0..255; LOAD needs two operands; LOAD value outside 0..255; STORE needs two operands;
  STORE address out of range; and the message of a caught \<^verbatim>\<open>ValueError\<close> or
  \<^verbatim>\<open>IndexError\<close>.
\<close>

datatype error2 =
    UnknownCommand2 nat string
  | BadRegister2 nat "string option"
  | MissingLabel2 nat string
  | UnknownLabel2 nat string
  | CmpArity2 nat
  | CmpBadRegisters2 nat
  | ArithArity2 nat string
  | ArithBadRegister2 nat string string
  | ArithOutOfRange2 nat string
  | LoadArity2 nat
  | ValueOutOfRange2 nat
  | StoreArity2 nat
  | AddressOutOfRange2 nat
  | ParseError2 nat

fun error_line2 :: "error2 \<Rightarrow> nat" where
  "error_line2 (UnknownCommand2 n c) = n"
| "error_line2 (BadRegister2 n r) = n"
| "error_line2 (MissingLabel2 n c) = n"
| "error_line2 (UnknownLabel2 n l) = n"
| "error_line2 (CmpArity2 n) = n"
| "error_line2 (CmpBadRegisters2 n) = n"
| "error_line2 (ArithArity2 n c) = n"
| "error_line2 (ArithBadRegister2 n r c) = n"
| "error_line2 (ArithOutOfRange2 n c) = n"
| "error_line2 (LoadArity2 n) = n"
| "error_line2 (ValueOutOfRange2 n) = n"
| "error_line2 (StoreArity2 n) = n"
| "error_line2 (AddressOutOfRange2 n) = n"
| "error_line2 (ParseError2 n) = n"

text \<open>The dictionary appended to \<^verbatim>\<open>self.instructions\<close>.\<close>
record instruction =
  mnemonic :: string
  opcode :: int
  operands :: "int list"
  line :: nat
  address :: int

text \<open>The fields of the \<^verbatim>\<open>Assembler\<close> object that the passes read and write.\<close>
record asm2 =
  instructions2 :: "instruction list"
  labels2 :: "string \<rightharpoonup> int"
  errors2 :: "error2 list"
  source_lines :: "string list"

text \<open>\<^verbatim>\<open>Assembler()\<close>\<close>
definition init2 :: asm2 where
  "init2 = \<lparr>instructions2 = [], labels2 = Map.empty, errors2 = [], source_lines = []\<rparr>"

subsection \<open>Pass 1\<close>

text \<open>The number of bytes pass 1 adds to \<^verbatim>\<open>address\<close> for a recognised command.\<close>
definition pass1_width :: "string \<Rightarrow> int" where
  "pass1_width command =
     (if command = ''HALT'' \<or> command = ''RET'' then 1
      else if command \<in> set [''PUSH'', ''POP''] then 2
      else 3)"

text \<open>The loop of \<^verbatim>\<open>_first_pass\<close>; \<open>addr\<close> is its local variable \<^verbatim>\<open>address\<close>.\<close>
fun first_pass_loop2 :: "int \<Rightarrow> asm2 \<Rightarrow> string list \<Rightarrow> asm2" where
  "first_pass_loop2 addr s [] = s"
| "first_pass_loop2 addr s (raw # rest) =
     (let ln = strip (cut_comment raw) in
      if ln = [] then first_pass_loop2 addr s rest
      else if CHR '':'' \<in> set ln then
        (let label_name = strip (before_first (CHR '':'') ln) in
         first_pass_loop2 addr (s\<lparr>labels2 := (labels2 s)(label_name \<mapsto> addr)\<rparr>) rest)
      else
        (let parts = split ln in
         if parts \<noteq> [] \<and> commands (upper (hd parts)) \<noteq> None
         then first_pass_loop2 (addr + pass1_width (upper (hd parts))) s rest
         else first_pass_loop2 addr s rest))"

definition first_pass2 :: "asm2 \<Rightarrow> string list \<Rightarrow> asm2" where
  "first_pass2 s lines = first_pass_loop2 0 s lines"

subsection \<open>Pass 2\<close>

text \<open>What the body of the loop of \<^verbatim>\<open>_second_pass\<close> does with one line: nothing
  (\<^verbatim>\<open>continue\<close> before any append), one error appended, or one instruction appended.\<close>
datatype outcome = Skipped | Failed error2 | Encoded string int "int list"

text \<open>\<^verbatim>\<open>int(s, 16) if s.startswith('0x') else int(s)\<close>; \<open>None\<close> is the
  \<^verbatim>\<open>ValueError\<close> that the \<^verbatim>\<open>except\<close> clause catches.\<close>
definition parse_number2 :: "string \<Rightarrow> int option" where
  "parse_number2 s = (if take 2 s = ''0x'' then py_int 16 s else py_int 10 s)"

text \<open>The \<^verbatim>\<open>try\<close> block: operands by command.\<close>
definition encode_operands :: "(string \<rightharpoonup> int) \<Rightarrow> nat \<Rightarrow> string \<Rightarrow> int \<Rightarrow> string list \<Rightarrow> outcome" where
  "encode_operands lab line_num command opc parts =
    (if command = ''HALT'' \<or> command = ''RET'' then Encoded command opc []
     else if command \<in> set [''PUSH'', ''POP''] then
       (let reg = (if length parts > 1 then Some (upper (parts ! 1)) else None) in
        case reg of
          None \<Rightarrow> Failed (BadRegister2 line_num reg)
        | Some r \<Rightarrow>
           (case (if r = [] then None else registers r) of
              None \<Rightarrow> Failed (BadRegister2 line_num reg)
            | Some i \<Rightarrow> Encoded command opc [i]))
     else if command \<in> set [''JMP'', ''JZ'', ''JNZ'', ''CALL''] then
       (if \<not> (length parts > 1 \<and> parts ! 1 \<noteq> []) then Failed (MissingLabel2 line_num command)
        else
         (let label = parts ! 1 in
          case lab label of
            Some addr \<Rightarrow> Encoded command opc [addr]
          | None \<Rightarrow>
             if isdigit label then
               (case py_int 10 label of
                  Some addr \<Rightarrow> Encoded command opc [addr]
                | None \<Rightarrow> Failed (ParseError2 line_num))
             else Failed (UnknownLabel2 line_num label)))
     else if command = ''CMP'' then
       (if length parts < 3 then Failed (CmpArity2 line_num)
        else
         (case (registers (upper (parts ! 1)), registers (upper (parts ! 2))) of
            (Some r1, Some r2) \<Rightarrow> Encoded command opc [r1, r2]
          | _ \<Rightarrow> Failed (CmpBadRegisters2 line_num)))
     else if command \<in> set [''ADD'', ''SUB'', ''MUL'', ''DIV'', ''MOD''] then
       (if length parts < 3 then Failed (ArithArity2 line_num command)
        else
         (let reg1 = upper (parts ! 1); op2_str = parts ! 2 in
          case registers reg1 of
            None \<Rightarrow> Failed (ArithBadRegister2 line_num reg1 command)
          | Some r1 \<Rightarrow>
             (case (case registers (upper op2_str) of
                      Some r2 \<Rightarrow> Some r2
                    | None \<Rightarrow> parse_number2 op2_str) of
                None \<Rightarrow> Failed (ParseError2 line_num)
              | Some op2 \<Rightarrow>
                 if \<not> (0 \<le> op2 \<and> op2 \<le> 255) then Failed (ArithOutOfRange2 line_num command)
                 else Encoded command opc [r1, op2])))
     else if command = ''LOAD'' then
       (if length parts < 3 then Failed (LoadArity2 line_num)
        else
         (let reg = upper (parts ! 1); value_str = parts ! 2 in
          case registers reg of
            None \<Rightarrow> Failed (BadRegister2 line_num (Some reg))
          | Some r \<Rightarrow>
             (case (case registers (upper value_str) of
                      Some r2 \<Rightarrow> Some r2
                    | None \<Rightarrow> parse_number2 value_str) of
                None \<Rightarrow> Failed (ParseError2 line_num)
              | Some v \<Rightarrow>
                 if \<not> (0 \<le> v \<and> v \<le> 255) then Failed (ValueOutOfRange2 line_num)
                 else Encoded command opc [r, v])))
     else if command = ''STORE'' then
       (if length parts < 3 then Failed (StoreArity2 line_num)
        else
         (let reg = upper (parts ! 1); addr_str = parts ! 2 in
          case registers reg of
            None \<Rightarrow> Failed (BadRegister2 line_num (Some reg))
          | Some r \<Rightarrow>
             (case parse_number2 addr_str of
                None \<Rightarrow> Failed (ParseError2 line_num)
              | Some addr \<Rightarrow>
                 if \<not> (0 \<le> addr \<and> addr \<le> 65535) then Failed (AddressOutOfRange2 line_num)
                 else Encoded command opc [r, addr AND 0xFF, (drop_bit 8 addr) AND 0xFF])))
     else Encoded command opc [])"

text \<open>The body of the loop up to the \<^verbatim>\<open>try\<close> block.\<close>
definition encode_line :: "(string \<rightharpoonup> int) \<Rightarrow> nat \<Rightarrow> string \<Rightarrow> outcome" where
  "encode_line lab line_num raw =
    (let ln = strip (cut_comment raw) in
     if ln = [] then Skipped
     else if CHR '':'' \<in> set ln then Skipped
     else
      (let parts = split (strip (replace_comma (cut_comment ln))) in
       if parts = [] then Skipped
       else
        (let command = upper (hd parts) in
         case commands command of
           None \<Rightarrow> Failed (UnknownCommand2 line_num command)
         | Some opc \<Rightarrow> encode_operands lab line_num command opc parts)))"

text \<open>The loop of \<^verbatim>\<open>_second_pass\<close>; \<open>n\<close> is \<^verbatim>\<open>line_num\<close> and \<open>addr\<close> the local
  variable \<^verbatim>\<open>address\<close>.\<close>
fun second_pass_loop2 :: "nat \<Rightarrow> int \<Rightarrow> asm2 \<Rightarrow> string list \<Rightarrow> asm2" where
  "second_pass_loop2 n addr s [] = s"
| "second_pass_loop2 n addr s (raw # rest) =
     (case encode_line (labels2 s) n raw of
        Skipped \<Rightarrow> second_pass_loop2 (Suc n) addr s rest
      | Failed e \<Rightarrow> second_pass_loop2 (Suc n) addr (s\<lparr>errors2 := errors2 s @ [e]\<rparr>) rest
      | Encoded m opc ops \<Rightarrow>
          second_pass_loop2 (Suc n) (addr + 1 + int (length ops))
            (s\<lparr>instructions2 := instructions2 s @
                 [\<lparr>mnemonic = m, opcode = opc, operands = ops, line = n, address = addr\<rparr>]\<rparr>)
            rest)"

definition second_pass2 :: "asm2 \<Rightarrow> string list \<Rightarrow> asm2" where
  "second_pass2 s lines = second_pass_loop2 1 0 s lines"

text \<open>\<^verbatim>\<open>assemble\<close> once the file has been read into \<open>lines\<close>; the flag tells whether
  it ends in \<^verbatim>\<open>sys.exit(1)\<close>.\<close>
definition assemble2 :: "asm2 \<Rightarrow> string list \<Rightarrow> asm2 \<times> bool" where
  "assemble2 s lines =
     (let s1 = s\<lparr>source_lines := lines\<rparr>;
          s2 = first_pass2 s1 lines;
          s3 = second_pass2 s2 lines
      in (s3, errors2 s3 \<noteq> []))"

definition get_machine_code :: "asm2 \<Rightarrow> int list" where
  "get_machine_code s = concat (map (\<lambda>i. opcode i # operands i) (instructions2 s))"

section \<open>assembler.py\<close>

text \<open>
  The messages appended to \<^verbatim>\<open>self.errors\<close>, each with its line number: wrong label
  name, label already defined, unknown command, wrong operand. The one warning tells
  that a value above 255 is replaced by \<^verbatim>\<open>val & 0xFF\<close>.
\<close>

datatype error1 =
    BadLabelName1 nat string
  | DuplicateLabel1 nat string
  | UnknownCommand1 nat string
  | BadOperand1 nat string

datatype warning1 = Truncated1 nat int int

record asm1 =
  instructions1 :: "int list"
  labels1 :: "string \<rightharpoonup> int"
  errors1 :: "error1 list"
  warnings1 :: "warning1 list"

text \<open>\<^verbatim>\<open>Assembler()\<close>\<close>
definition init1 :: asm1 where
  "init1 = \<lparr>instructions1 = [], labels1 = Map.empty, errors1 = [], warnings1 = []\<rparr>"

text \<open>\<^verbatim>\<open>int(s, 0)\<close> returns.\<close>
definition is_valid_number :: "string \<Rightarrow> bool" where
  "is_valid_number s = (py_int 0 s \<noteq> None)"

definition is_valid_identifier :: "string \<Rightarrow> bool" where
  "is_valid_identifier s = (isidentifier s \<and> \<not> (commands (upper s) \<noteq> None))"

text \<open>\<^verbatim>\<open>line.endswith(':')\<close>\<close>
definition endswith_colon :: "string \<Rightarrow> bool" where
  "endswith_colon s = (s \<noteq> [] \<and> last s = CHR '':'')"

text \<open>\<^verbatim>\<open>s.split(sep)\<close> with a one-character separator.\<close>
fun split_on :: "char \<Rightarrow> string \<Rightarrow> string list" where
  "split_on sep [] = [[]]"
| "split_on sep (c # cs) =
     (if c = sep then [] # split_on sep cs
      else (case split_on sep cs of
              x # xs \<Rightarrow> (c # x) # xs
            | [] \<Rightarrow> [[c]]))"

text \<open>The loop of \<^verbatim>\<open>first_pass\<close>; the flag is the value it returns.\<close>
fun first_pass_loop :: "nat \<Rightarrow> asm1 \<Rightarrow> string list \<Rightarrow> bool \<times> asm1" where
  "first_pass_loop n s [] = (True, s)"
| "first_pass_loop n s (raw # rest) =
     (let ln = strip (before_first (CHR '';'') raw) in
      if ln = [] then first_pass_loop (Suc n) s rest
      else if endswith_colon ln then
        (let label = strip (butlast ln) in
         if \<not> is_valid_identifier label
         then (False, s\<lparr>errors1 := errors1 s @ [BadLabelName1 n label]\<rparr>)
         else if labels1 s label \<noteq> None
         then (False, s\<lparr>errors1 := errors1 s @ [DuplicateLabel1 n label]\<rparr>)
         else first_pass_loop (Suc n)
                (s\<lparr>labels1 := (labels1 s)(label \<mapsto> int (length (instructions1 s)))\<rparr>) rest)
      else
        (let parts = split ln in
         if parts = [] then first_pass_loop (Suc n) s rest
         else
          (let cmd = upper (hd parts) in
           if commands cmd = None
           then (False, s\<lparr>errors1 := errors1 s @ [UnknownCommand1 n cmd]\<rparr>)
           else first_pass_loop (Suc n) (s\<lparr>instructions1 := instructions1 s @ [0]\<rparr>) rest)))"

definition first_pass :: "asm1 \<Rightarrow> string list \<Rightarrow> bool \<times> asm1" where
  "first_pass s lines = first_pass_loop 1 s lines"

text \<open>The inner loop of \<^verbatim>\<open>second_pass\<close> over the operands of one line; the flag is
  \<open>False\<close> when the loop ends in \<^verbatim>\<open>return False\<close>.\<close>
fun operands_loop :: "nat \<Rightarrow> asm1 \<Rightarrow> string list \<Rightarrow> bool \<times> asm1" where
  "operands_loop n s [] = (True, s)"
| "operands_loop n s (operand # rest) =
     (let operand_clean = strip (rstrip_comma operand) in
      if labels1 s operand_clean \<noteq> None then
        operands_loop n
          (s\<lparr>instructions1 := instructions1 s @ [the (labels1 s operand_clean)]\<rparr>) rest
      else if registers operand_clean \<noteq> None then
        operands_loop n
          (s\<lparr>instructions1 := instructions1 s @ [the (registers operand_clean)]\<rparr>) rest
      else if is_valid_number operand_clean then
        (let val = the (py_int 0 operand_clean);
             s' = (if val > 255
                   then s\<lparr>warnings1 := warnings1 s @ [Truncated1 n val (val AND 0xFF)]\<rparr>
                   else s)
         in operands_loop n (s'\<lparr>instructions1 := instructions1 s' @ [val AND 0xFF]\<rparr>) rest)
      else (False, s\<lparr>errors1 := errors1 s @ [BadOperand1 n operand_clean]\<rparr>))"

text \<open>The outer loop of \<^verbatim>\<open>second_pass\<close>. A line that is not blank after
  \<^verbatim>\<open>strip\<close> has a first token, so \<^verbatim>\<open>parts[0]\<close> does not raise (lemma
  \<open>split_strip_nonempty\<close> below).\<close>
fun second_pass_loop :: "nat \<Rightarrow> asm1 \<Rightarrow> string list \<Rightarrow> bool \<times> asm1" where
  "second_pass_loop n s [] = (True, s)"
| "second_pass_loop n s (raw # rest) =
     (let ln = strip (before_first (CHR '';'') raw) in
      if ln = [] \<or> endswith_colon ln then second_pass_loop (Suc n) s rest
      else
       (let parts = split ln; cmd = upper (hd parts) in
        if commands cmd = None then second_pass_loop (Suc n) s rest
        else
         (case operands_loop n
                 (s\<lparr>instructions1 := instructions1 s @ [the (commands cmd)]\<rparr>) (tl parts) of
            (True, s') \<Rightarrow> second_pass_loop (Suc n) s' rest
          | (False, s') \<Rightarrow> (False, s'))))"

definition second_pass :: "asm1 \<Rightarrow> string list \<Rightarrow> bool \<times> asm1" where
  "second_pass s lines = second_pass_loop 1 (s\<lparr>instructions1 := []\<rparr>) lines"

definition assemble :: "asm1 \<Rightarrow> string \<Rightarrow> bool \<times> asm1" where
  "assemble s source_code =
     (let lines = split_on (CHR 0x0A) source_code in
      case first_pass (s\<lparr>instructions1 := []\<rparr>) lines of
        (False, s1) \<Rightarrow> (False, s1)
      | (True, s1) \<Rightarrow>
         (case second_pass (s1\<lparr>instructions1 := []\<rparr>) lines of
            (False, s2) \<Rightarrow> (False, s2)
          | (True, s2) \<Rightarrow> (True, s2)))"

section \<open>Concrete programs\<close>

definition forward_reference_program :: "string list" where
  "forward_reference_program =
     [''START:'', ''LOAD A 5'', ''LOAD B 10'', ''ADD A B'', ''JZ END'', ''JMP START'',
      ''END:'', ''HALT'']"


definition label_then_halt :: string where
  "label_then_halt = ''L:'' @ [CHR 0x0A] @ ''HALT''"



section \<open>Evaluations at concrete programs\<close>

text \<open>
  C2: assembling the forward-reference program with assembler-stage2.py resolves START
  to 0 and END to 15, reports no error, and produces the bytes
  01 00 05 01 01 0a 03 00 01 09 0f 08 00 10.
\<close>
theorem forward_reference_scenario:
  "labels2 (fst (assemble2 init2 forward_reference_program)) ''START'' = Some 0 \<and>
   labels2 (fst (assemble2 init2 forward_reference_program)) ''END'' = Some 15 \<and>
   errors2 (fst (assemble2 init2 forward_reference_program)) = [] \<and>
   get_machine_code (fst (assemble2 init2 forward_reference_program)) =
     [0x01, 0x00, 0x05, 0x01, 0x01, 0x0a, 0x03, 0x00, 0x01, 0x09, 0x0f, 0x08, 0x00, 0x10]"
  by code_simp

text \<open>
  C1: in the same program pass 1 records END at 15, while the instruction that follows
  the label (HALT, on line 8) is emitted by pass 2 at address 13: pass 1 charges three
  bytes for JZ and for JMP, and pass 2 emits two bytes for each. The claim asks for the
  two addresses to be equal.
\<close>
theorem forward_reference_label_past_instruction:
  "labels2 (fst (assemble2 init2 forward_reference_program)) ''END'' = Some 15 \<and>
   map (\<lambda>i. (line i, mnemonic i, address i, length (operands i)))
       (instructions2 (fst (assemble2 init2 forward_reference_program))) =
     [(2, ''LOAD'', 0, 2), (3, ''LOAD'', 3, 2), (4, ''ADD'', 6, 2), (5, ''JZ'', 9, 1),
      (6, ''JMP'', 11, 1), (8, ''HALT'', 13, 0)] \<and>
   pass1_width ''JZ'' = 3 \<and> pass1_width ''JMP'' = 3 \<and> pass1_width ''STORE'' = 3"
  by code_simp



text \<open>
  C5, counterexample: assembler.py has no wide-address operand: for
  \<^verbatim>\<open>STORE A 300\<close> it emits the three bytes 02 00 2c and a truncation warning.
\<close>
theorem store_300_assembler_py:
  "fst (assemble init1 ''STORE A 300'') = True \<and>
   instructions1 (snd (assemble init1 ''STORE A 300'')) = [0x02, 0x00, 0x2c] \<and>
   warnings1 (snd (assemble init1 ''STORE A 300'')) = [Truncated1 1 300 0x2c]"
  by code_simp

text \<open>
  C5, amended: assembler-stage2.py assembles the single statement \<^verbatim>\<open>STORE A 300\<close>
  without error into the four bytes 02 00 2c 01: the opcode, register 0, and the address
  low byte first.
\<close>
theorem store_300_stage2:
  "errors2 (fst (assemble2 init2 [''STORE A 300''])) = [] \<and>
   map operands (instructions2 (fst (assemble2 init2 [''STORE A 300'']))) = [[0x00, 0x2c, 0x01]] \<and>
   get_machine_code (fst (assemble2 init2 [''STORE A 300''])) = [0x02, 0x00, 0x2c, 0x01]"
  by code_simp


text \<open>
  C7: for \<^verbatim>\<open>JMP 300\<close> assembler-stage2.py records no error and emits the operand
  300 as it is, so that the machine code list holds a value that is no byte;
  assembler.py emits the truncated byte 300 mod 256 = 44 with a warning and no error.
  The claim asks for an error in place of either.
\<close>
theorem jump_target_300_accepted:
  "instructions2 (fst (assemble2 init2 [''JMP 300''])) =
     [\<lparr>mnemonic = ''JMP'', opcode = 0x08, operands = [300], line = 1, address = 0\<rparr>] \<and>
   errors2 (fst (assemble2 init2 [''JMP 300''])) = [] \<and>
   snd (assemble2 init2 [''JMP 300'']) = False \<and>
   get_machine_code (fst (assemble2 init2 [''JMP 300''])) = [0x08, 300] \<and>
   fst (assemble init1 ''JMP 300'') = True \<and>
   errors1 (snd (assemble init1 ''JMP 300'')) = [] \<and>
   warnings1 (snd (assemble init1 ''JMP 300'')) = [Truncated1 1 300 44] \<and>
   instructions1 (snd (assemble init1 ''JMP 300'')) = [0x08, 44]"
  by code_simp


text \<open>
  C9, counterexample: a second call of \<^verbatim>\<open>assemble\<close> on the same object does not
  behave as the first. assembler-stage2.py appends to the instruction list of the first
  call, so the machine code of HALT is 10 and then 10 10; assembler.py finds the label
  of the first call in its table and fails with a duplicate-label error.
\<close>
theorem second_assemble_differs:
  "get_machine_code (fst (assemble2 init2 [''HALT''])) = [0x10] \<and>
   get_machine_code (fst (assemble2 (fst (assemble2 init2 [''HALT''])) [''HALT''])) = [0x10, 0x10] \<and>
   fst (assemble init1 label_then_halt) = True \<and>
   instructions1 (snd (assemble init1 label_then_halt)) = [0x10] \<and>
   fst (assemble (snd (assemble init1 label_then_halt)) label_then_halt) = False \<and>
   instructions1 (snd (assemble (snd (assemble init1 label_then_halt)) label_then_halt)) = [] \<and>
   errors1 (snd (assemble (snd (assemble init1 label_then_halt)) label_then_halt)) =
     [DuplicateLabel1 1 ''L'']"
  unfolding label_then_halt_def by code_simp

text \<open>
  C10, counterexample: assembler.py compares register names as they are written, so the
  lower-case register of \<^verbatim>\<open>LOAD A, b\<close> is a wrong operand; and assembler-stage2.py
  rejects a LOAD whose second operand is a register when the first one is not.
\<close>
theorem load_register_operand_rejected:
  "fst (assemble init1 ''LOAD A, b'') = False \<and>
   errors1 (snd (assemble init1 ''LOAD A, b'')) = [BadOperand1 1 ''b''] \<and>
   errors2 (fst (assemble2 init2 [''LOAD X B''])) = [BadRegister2 1 (Some ''X'')] \<and>
   instructions2 (fst (assemble2 init2 [''LOAD X B''])) = []"
  by code_simp

section \<open>Pass 2 of assembler-stage2.py, line by line\<close>

lemma second_pass_loop2_labels: "labels2 (second_pass_loop2 n a s ls) = labels2 s"
  by (induction ls arbitrary: n a s) (auto split: outcome.splits)

lemma encode_operands_error_line_case:
  "(case encode_operands lab n c opc parts of Failed e \<Rightarrow> error_line2 e = n | _ \<Rightarrow> True)"
  unfolding encode_operands_def Let_def
  by (simp split: option.split)

lemma encode_operands_error_line:
  "encode_operands lab n c opc parts = Failed e \<Longrightarrow> error_line2 e = n"
  using encode_operands_error_line_case[where lab=lab and n=n and c=c and opc=opc and parts=parts] by simp

lemma encode_line_error_line: "encode_line lab n raw = Failed e \<Longrightarrow> error_line2 e = n"
  unfolding encode_line_def Let_def
  by (auto split: if_splits option.splits dest: encode_operands_error_line)

lemma second_pass_loop2_errors_iff:
  "e \<in> set (errors2 (second_pass_loop2 n a s ls)) \<longleftrightarrow>
     e \<in> set (errors2 s) \<or> (\<exists>i<length ls. encode_line (labels2 s) (n + i) (ls ! i) = Failed e)"
proof (induction ls arbitrary: n a s)
  case Nil
  then show ?case by simp
next
  case (Cons raw rest)
  show ?case
    by (cases "encode_line (labels2 s) n raw") (auto simp: Cons.IH Ex_less_Suc2)
qed

lemma second_pass_loop2_instructions_mono:
  "x \<in> set (instructions2 s) \<Longrightarrow> x \<in> set (instructions2 (second_pass_loop2 n a s ls))"
  by (induction ls arbitrary: n a s) (auto split: outcome.splits)


lemma second_pass_loop2_instructions_all:
  "i < length ls \<Longrightarrow> encode_line (labels2 s) (n + i) (ls ! i) = Encoded m opc ops \<Longrightarrow>
   \<exists>ad. \<lparr>mnemonic = m, opcode = opc, operands = ops, line = n + i, address = ad\<rparr>
          \<in> set (instructions2 (second_pass_loop2 n a s ls))"
proof (induction ls arbitrary: n a s i)
  case Nil
  then show ?case by simp
next
  case (Cons raw rest)
  show ?case
  proof (cases i)
    case 0
    have "\<lparr>mnemonic = m, opcode = opc, operands = ops, line = n, address = a\<rparr>
            \<in> set (instructions2 (second_pass_loop2 n a s (raw # rest)))"
      using Cons.prems 0 by (simp add: second_pass_loop2_instructions_mono)
    then show ?thesis using 0 by auto
  next
    case (Suc j)
    have len: "j < length rest" using Cons.prems Suc by simp
    have enc: "encode_line (labels2 s) (Suc n + j) (rest ! j) = Encoded m opc ops"
      using Cons.prems Suc by simp
    show ?thesis
    proof (cases "encode_line (labels2 s) n raw")
      case Skipped
      then show ?thesis using Cons.IH[OF len, of s "Suc n" a] enc Suc by simp
    next
      case (Failed e)
      then show ?thesis
        using Cons.IH[OF len, of "s\<lparr>errors2 := errors2 s @ [e]\<rparr>" "Suc n" a] enc Suc by simp
    next
      case (Encoded m' opc' ops')
      then show ?thesis
        using Cons.IH[OF len, of "s\<lparr>instructions2 := instructions2 s @
            [\<lparr>mnemonic = m', opcode = opc', operands = ops', line = n, address = a\<rparr>]\<rparr>"
            "Suc n" "a + 1 + int (length ops')"] enc Suc by simp
    qed
  qed
qed

lemma first_pass_loop2_errors: "errors2 (first_pass_loop2 a s ls) = errors2 s"
  by (induction ls arbitrary: a s) (simp_all add: Let_def)


lemma fst_assemble2:
  "fst (assemble2 s lines) = second_pass2 (first_pass2 (s\<lparr>source_lines := lines\<rparr>) lines) lines"
  by (simp add: assemble2_def Let_def)

lemma assemble2_errors_iff:
  "e \<in> set (errors2 (fst (assemble2 init2 lines))) \<longleftrightarrow>
     (\<exists>i<length lines. encode_line (labels2 (first_pass2 (init2\<lparr>source_lines := lines\<rparr>) lines))
          (Suc i) (lines ! i) = Failed e)"
  by (simp add: fst_assemble2 second_pass2_def first_pass2_def second_pass_loop2_errors_iff
      first_pass_loop2_errors init2_def[THEN arg_cong[where f=errors2]])


lemma assemble2_instructions_all:
  assumes "i < length lines"
    and "encode_line (labels2 (first_pass2 (init2\<lparr>source_lines := lines\<rparr>) lines))
          (Suc i) (lines ! i) = Encoded m opc ops"
  shows "\<exists>ad. \<lparr>mnemonic = m, opcode = opc, operands = ops, line = Suc i, address = ad\<rparr>
          \<in> set (instructions2 (fst (assemble2 init2 lines)))"
  using second_pass_loop2_instructions_all[of i lines "first_pass2 (init2\<lparr>source_lines := lines\<rparr>) lines" 1 m opc ops 0]
    assms
  by (simp add: fst_assemble2 second_pass2_def)

lemma registers_range: "registers x = Some j \<Longrightarrow> 0 \<le> j \<and> j \<le> 3"
  by (auto simp: registers_def split: if_splits)


lemma encode_line_load_register:
  assumes "ln = strip (cut_comment raw)" and "ln \<noteq> []" and "CHR '':'' \<notin> set ln"
    and "split (strip (replace_comma (cut_comment ln))) = c # r # v # rest"
    and "upper c = ''LOAD''" and "registers (upper r) = Some i"
    and "registers (upper v) = Some j"
  shows "encode_line lab n raw = Encoded ''LOAD'' 1 [i, j]"
  using assms registers_range[of "upper v" j]
  by (auto simp: encode_line_def encode_operands_def commands_def Let_def)





text \<open>
  C10, amended: in assembler-stage2.py, a LOAD line whose first operand is a register
  name and whose second operand is, in either case, one of A, B, C, D is encoded with
  the index of that register (0 to 3) as its second operand byte, and no error is
  recorded for the line. (assembler.py accepts upper-case register names only.)
\<close>
theorem load_register_operand_stage2:
  assumes "k < length lines"
    and "ln = strip (cut_comment (lines ! k))" and "ln \<noteq> []" and "CHR '':'' \<notin> set ln"
    and "split (strip (replace_comma (cut_comment ln))) = c # r # v # rest"
    and "upper c = ''LOAD''" and "registers (upper r) = Some i"
    and "registers (upper v) = Some j"
  shows "(\<exists>ad. \<lparr>mnemonic = ''LOAD'', opcode = 0x01, operands = [i, j], line = Suc k, address = ad\<rparr>
             \<in> set (instructions2 (fst (assemble2 init2 lines)))) \<and>
         Suc k \<notin> error_line2 ` set (errors2 (fst (assemble2 init2 lines))) \<and>
         0 \<le> j \<and> j \<le> 3"
proof -
  let ?lab = "labels2 (first_pass2 (init2\<lparr>source_lines := lines\<rparr>) lines)"
  have enc: "encode_line ?lab (Suc k) (lines ! k) = Encoded ''LOAD'' 1 [i, j]"
    using assms(2-8) by (rule encode_line_load_register)
  have emitted: "\<exists>ad. \<lparr>mnemonic = ''LOAD'', opcode = 0x01, operands = [i, j], line = Suc k, address = ad\<rparr>
             \<in> set (instructions2 (fst (assemble2 init2 lines)))"
    using assemble2_instructions_all[OF assms(1) enc] by simp
  have no_err: "Suc k \<notin> error_line2 ` set (errors2 (fst (assemble2 init2 lines)))"
  proof
    assume "Suc k \<in> error_line2 ` set (errors2 (fst (assemble2 init2 lines)))"
    then obtain e where e: "e \<in> set (errors2 (fst (assemble2 init2 lines)))" "error_line2 e = Suc k"
      by auto
    from e(1) obtain i' where i': "i' < length lines"
        "encode_line ?lab (Suc i') (lines ! i') = Failed e"
      by (auto simp: assemble2_errors_iff)
    from encode_line_error_line[OF i'(2)] e(2) have "i' = k" by simp
    with i'(2) enc show False by simp
  qed
  from emitted no_err registers_range[OF assms(8)] show ?thesis by simp
qed

theorem load_register_operand_stage2_witness:
  "registers (upper ''b'') = Some 1 \<and>
   (\<exists>ad. \<lparr>mnemonic = ''LOAD'', opcode = 0x01, operands = [0, 1], line = 1, address = ad\<rparr>
             \<in> set (instructions2 (fst (assemble2 init2 [''load a, b'', ''PUSH''])))) \<and>
   1 \<notin> error_line2 ` set (errors2 (fst (assemble2 init2 [''load a, b'', ''PUSH''])))"
proof -
  have h1: "0 < length [''load a, b'', ''PUSH'']" by simp
  have h2: "''load a, b'' = strip (cut_comment ([''load a, b'', ''PUSH''] ! 0))" by code_simp
  have h3: "''load a, b'' \<noteq> []" by simp
  have h4: "CHR '':'' \<notin> set ''load a, b''" by simp
  have h5: "split (strip (replace_comma (cut_comment ''load a, b''))) = ''load'' # ''a'' # ''b'' # []"
    by code_simp
  have h6: "upper ''load'' = ''LOAD''" by code_simp
  have h7: "registers (upper ''a'') = Some 0" by code_simp
  have h8: "registers (upper ''b'') = Some 1" by code_simp
  show ?thesis
    using load_register_operand_stage2[OF h1 h2 h3 h4 h5 h6 h7 h8] h8 by simp
qed

section \<open>Calling \<^verbatim>\<open>assemble\<close> of assembler-stage2.py twice on one object\<close>

text \<open>
  Pass 1 only adds to the label table, and what it adds depends on the lines alone;
  pass 2 only appends instructions and errors, and what it appends depends on the lines
  and the label table alone.
\<close>
lemma first_pass_loop2_shape:
  "\<exists>F. \<forall>s. first_pass_loop2 a s ls = s\<lparr>labels2 := labels2 s ++ F\<rparr>"
proof (induction ls arbitrary: a)
  case Nil
  have "\<forall>s. first_pass_loop2 a s [] = s\<lparr>labels2 := labels2 s ++ Map.empty\<rparr>" by simp
  then show ?case by blast
next
  case (Cons raw rest)
  let ?ln = "strip (cut_comment raw)"
  show ?case
  proof (cases "?ln \<noteq> [] \<and> CHR '':'' \<in> set ?ln")
    case True
    let ?nm = "strip (before_first (CHR '':'') ?ln)"
    from Cons.IH[of a] obtain F where F: "\<forall>s. first_pass_loop2 a s rest = s\<lparr>labels2 := labels2 s ++ F\<rparr>"
      by blast
    have "\<forall>s. first_pass_loop2 a s (raw # rest) = s\<lparr>labels2 := labels2 s ++ ([?nm \<mapsto> a] ++ F)\<rparr>"
      using True F by (simp add: Let_def map_add_assoc[symmetric])
    then show ?thesis by blast
  next
    case False
    let ?a' = "(if ?ln \<noteq> [] \<and> split ?ln \<noteq> [] \<and> commands (upper (hd (split ?ln))) \<noteq> None
                then a + pass1_width (upper (hd (split ?ln))) else a)"
    from Cons.IH[of ?a'] obtain F where F: "\<forall>s. first_pass_loop2 ?a' s rest = s\<lparr>labels2 := labels2 s ++ F\<rparr>"
      by blast
    have "\<forall>s. first_pass_loop2 a s (raw # rest) = s\<lparr>labels2 := labels2 s ++ F\<rparr>"
      using False F by (auto simp: Let_def)
    then show ?thesis by blast
  qed
qed

lemma second_pass_loop2_shape:
  "\<exists>I E. \<forall>s. labels2 s = lab \<longrightarrow>
     second_pass_loop2 n a s ls = s\<lparr>instructions2 := instructions2 s @ I, errors2 := errors2 s @ E\<rparr>"
proof (induction ls arbitrary: n a)
  case Nil
  have "\<forall>s. labels2 s = lab \<longrightarrow>
     second_pass_loop2 n a s [] = s\<lparr>instructions2 := instructions2 s @ [], errors2 := errors2 s @ []\<rparr>"
    by simp
  then show ?case by blast
next
  case (Cons raw rest)
  show ?case
  proof (cases "encode_line lab n raw")
    case Skipped
    from Cons.IH[of "Suc n" a] obtain I E where IE: "\<forall>s. labels2 s = lab \<longrightarrow>
       second_pass_loop2 (Suc n) a s rest = s\<lparr>instructions2 := instructions2 s @ I, errors2 := errors2 s @ E\<rparr>"
      by blast
    have "\<forall>s. labels2 s = lab \<longrightarrow>
       second_pass_loop2 n a s (raw # rest) = s\<lparr>instructions2 := instructions2 s @ I, errors2 := errors2 s @ E\<rparr>"
      using Skipped IE by simp
    then show ?thesis by blast
  next
    case (Failed e)
    from Cons.IH[of "Suc n" a] obtain I E where IE: "\<forall>s. labels2 s = lab \<longrightarrow>
       second_pass_loop2 (Suc n) a s rest = s\<lparr>instructions2 := instructions2 s @ I, errors2 := errors2 s @ E\<rparr>"
      by blast
    have "\<forall>s. labels2 s = lab \<longrightarrow>
       second_pass_loop2 n a s (raw # rest) = s\<lparr>instructions2 := instructions2 s @ I, errors2 := errors2 s @ (e # E)\<rparr>"
      using Failed IE by simp
    then show ?thesis by blast
  next
    case (Encoded m opc ops)
    let ?x = "\<lparr>mnemonic = m, opcode = opc, operands = ops, line = n, address = a\<rparr>"
    from Cons.IH[of "Suc n" "a + 1 + int (length ops)"] obtain I E where IE: "\<forall>s. labels2 s = lab \<longrightarrow>
       second_pass_loop2 (Suc n) (a + 1 + int (length ops)) s rest =
         s\<lparr>instructions2 := instructions2 s @ I, errors2 := errors2 s @ E\<rparr>"
      by blast
    have "\<forall>s. labels2 s = lab \<longrightarrow>
       second_pass_loop2 n a s (raw # rest) = s\<lparr>instructions2 := instructions2 s @ (?x # I), errors2 := errors2 s @ E\<rparr>"
      using Encoded IE by simp
    then show ?thesis by blast
  qed
qed

text \<open>
  C9, amended: a second call of \<^verbatim>\<open>assemble\<close> on the same object of assembler-stage2.py,
  with the same lines, computes the same label table and appends the same instructions
  and the same errors once more: the instruction list, the machine code and the error
  list are those of the first call written twice. Identical output needs a freshly
  constructed object for each run.
\<close>
theorem stage2_second_assemble_repeats:
  "labels2 (fst (assemble2 (fst (assemble2 init2 lines)) lines)) = labels2 (fst (assemble2 init2 lines)) \<and>
   instructions2 (fst (assemble2 (fst (assemble2 init2 lines)) lines)) =
     instructions2 (fst (assemble2 init2 lines)) @ instructions2 (fst (assemble2 init2 lines)) \<and>
   errors2 (fst (assemble2 (fst (assemble2 init2 lines)) lines)) =
     errors2 (fst (assemble2 init2 lines)) @ errors2 (fst (assemble2 init2 lines)) \<and>
   get_machine_code (fst (assemble2 (fst (assemble2 init2 lines)) lines)) =
     get_machine_code (fst (assemble2 init2 lines)) @ get_machine_code (fst (assemble2 init2 lines))"
proof -
  obtain F where F: "\<forall>s. first_pass_loop2 0 s lines = s\<lparr>labels2 := labels2 s ++ F\<rparr>"
    using first_pass_loop2_shape[of 0 lines] by blast
  obtain I E where IE: "\<forall>s. labels2 s = F \<longrightarrow>
     second_pass_loop2 1 0 s lines = s\<lparr>instructions2 := instructions2 s @ I, errors2 := errors2 s @ E\<rparr>"
    using second_pass_loop2_shape[of F 1 0 lines] by blast
  define s1 where "s1 = fst (assemble2 init2 lines)"
  have s1: "s1 = \<lparr>instructions2 = I, labels2 = F, errors2 = E, source_lines = lines\<rparr>"
    using F IE by (simp add: s1_def fst_assemble2 first_pass2_def second_pass2_def init2_def)
  have FF: "F ++ F = F"
    by (rule ext) (simp add: map_add_def split: option.split)
  have s2: "fst (assemble2 s1 lines) =
      \<lparr>instructions2 = I @ I, labels2 = F, errors2 = E @ E, source_lines = lines\<rparr>"
    using F IE by (simp add: s1 fst_assemble2 first_pass2_def second_pass2_def FF)
  show ?thesis
    unfolding s1_def[symmetric] s2 by (simp add: s1 get_machine_code_def)
qed

section \<open>Label declarations in assembler.py\<close>

text \<open>
  A line that is not blank after \<^verbatim>\<open>strip\<close> has a first token: \<^verbatim>\<open>parts[0]\<close> in
  \<^verbatim>\<open>second_pass\<close> does not raise.
\<close>
lemma split_acc_Nil_iff: "split_acc cur s = [] \<longleftrightarrow> cur = [] \<and> list_all isspace s"
  by (induction s arbitrary: cur) auto

lemma strip_has_symbol:
  assumes "strip s \<noteq> []"
  shows "\<not> list_all isspace (strip s)"
proof -
  let ?t = "dropWhile isspace (rev (dropWhile isspace s))"
  have ne: "?t \<noteq> []" using assms by (simp add: strip_def)
  then have "\<not> isspace (hd ?t)" by (rule hd_dropWhile)
  moreover have "hd ?t \<in> set ?t" using ne by simp
  ultimately show ?thesis by (auto simp: strip_def list_all_iff)
qed

lemma split_strip_nonempty: "strip s \<noteq> [] \<Longrightarrow> split (strip s) \<noteq> []"
  using strip_has_symbol[of s] by (simp add: split_def split_acc_Nil_iff)









end
